theory Spec2Isabelle
  imports Main "HOL-Library.Word"
begin

unbundle bit_operations_syntax

section \<open>The KMS/DRM context driver of retroarch-go2 (gfx/drivers_context/drm_ctx.c)\<close>

text \<open>
  The driver is a set of C functions over one heap-allocated struct
  (\<open>gfx_ctx_drm_data_t\<close>), one file-level variable (\<open>drm_api\<close>) and the two
  EGL globals \<open>g_egl_major\<close>, \<open>g_egl_minor\<close>. Everything else it does is a call
  into libgo2, EGL, GL, the frontend or the logger. The embedding keeps that shape:

  \<^item> a pointer is an \<open>addr option\<close>, \<open>None\<close> being \<open>NULL\<close>; the \<open>void *data\<close>
    argument is a \<open>gfx_ctx_drm_data option\<close>;
  \<^item> \<open>unsigned\<close> is a 32-bit word, \<open>int\<close> a 32-bit word read
    through \<open>sint\<close>;
  \<^item> the preprocessor symbols the file tests are the fields of \<open>build_config\<close>;
  \<^item> the calls that leave the file are appended, in order and with their arguments,
    to the \<open>calls\<close> field of the \<open>world\<close>; what such a call returns is read from
    a \<open>platform\<close>, as a function of the calls made so far and of the arguments;
  \<^item> a read or write of \<open>drm->...\<close> that the code reaches without having tested
    \<open>drm\<close> is \<open>Inl Null_dereference\<close> on a null argument; forming the address
    \<open>&drm->egl\<close> reads nothing, and a pointer to an \<open>egl_ctx_data_t\<close> is the
    \<open>egl_ctx_data option\<close> of what it points to.
\<close>

subsection \<open>Types\<close>

type_synonym addr = nat
type_synonym u32 = "32 word"
type_synonym s32 = "32 word"

text \<open>
  \<open>enum gfx_ctx_api\<close> is declared outside this file. The file names four of its
  enumerators; every other one only ever reaches a \<open>default:\<close> label and is
  \<open>GFX_CTX_OTHER_API\<close> here.
\<close>

datatype gfx_ctx_api =
    GFX_CTX_NONE
  | GFX_CTX_OPENGL_API
  | GFX_CTX_OPENGL_ES_API
  | GFX_CTX_OPENVG_API
  | GFX_CTX_OTHER_API nat

datatype egl_api = EGL_OPENGL_API | EGL_OPENGL_ES_API | EGL_OPENVG_API

datatype go2_rotation =
    GO2_ROTATION_DEGREES_0
  | GO2_ROTATION_DEGREES_90
  | GO2_ROTATION_DEGREES_180
  | GO2_ROTATION_DEGREES_270

datatype drm_format = DRM_FORMAT_RGB565

datatype gl_bitfield = GL_COLOR_BUFFER_BIT

datatype fault = Null_dereference

record build_config =
  HAVE_EGL :: bool
  HAVE_OPENGL :: bool
  HAVE_OPENGLES :: bool
  HAVE_VG :: bool
  EGL_KHR_create_context :: bool
  HAVE_SLANG :: bool
  HAVE_SPIRV_CROSS :: bool

record go2_context_attributes =
  attr_major :: int
  attr_minor :: int
  attr_red_bits :: int
  attr_green_bits :: int
  attr_blue_bits :: int
  attr_alpha_bits :: int
  attr_depth_bits :: int
  attr_stencil_bits :: int

text \<open>\<open>egl_ctx_data_t\<close> is opaque to this file: only its address is passed on.\<close>

type_synonym egl_ctx_data = nat

record gfx_ctx_drm_data =
  egl :: egl_ctx_data
  display :: "addr option"
  presenter :: "addr option"
  "context" :: "addr option"
  interval :: s32
  fb_width :: u32
  fb_height :: u32
  core_hw_context_enable :: bool

datatype call =
    Call_go2_display_create
  | Call_go2_presenter_create "addr option" drm_format u32
  | Call_go2_context_create "addr option" int int go2_context_attributes
  | Call_go2_context_make_current "addr option"
  | Call_go2_context_destroy "addr option"
  | Call_go2_presenter_destroy "addr option"
  | Call_go2_display_destroy "addr option"
  | Call_go2_context_swap_buffers "addr option"
  | Call_go2_context_surface_lock "addr option"
  | Call_go2_presenter_post "addr option" "addr option" int int int int int int int int go2_rotation
  | Call_go2_context_surface_unlock "addr option" "addr option"
  | Call_glClear gl_bitfield
  | Call_frontend_driver_install_signal_handler
  | Call_egl_get_proc_address string
  | Call_egl_bind_api egl_api
  | Call_egl_bind_hw_render "egl_ctx_data option" bool
  | Call_RARCH_WARN string
  | Call_printf string

record world =
  drm_api :: gfx_ctx_api
  g_egl_major :: u32
  g_egl_minor :: u32
  calls :: "call list"

record platform =
  calloc_succeeds :: "call list \<Rightarrow> bool"
  go2_display_create :: "call list \<Rightarrow> addr option"
  go2_presenter_create :: "call list \<Rightarrow> addr option \<Rightarrow> drm_format \<Rightarrow> u32 \<Rightarrow> addr option"
  go2_context_create ::
    "call list \<Rightarrow> addr option \<Rightarrow> int \<Rightarrow> int \<Rightarrow> go2_context_attributes \<Rightarrow> addr option"
  go2_context_surface_lock :: "call list \<Rightarrow> addr option \<Rightarrow> addr option"
  egl_get_proc_address :: "call list \<Rightarrow> string \<Rightarrow> addr option"
  egl_bind_api :: "call list \<Rightarrow> egl_api \<Rightarrow> bool"
  egl_bind_hw_render :: "call list \<Rightarrow> egl_ctx_data \<Rightarrow> bool \<Rightarrow> egl_ctx_data"
  video_driver_get_ident :: "string option"

text \<open>
  \<open>enum display_flags\<close> is declared outside this file; the numbers of the four
  enumerators the file uses are a parameter.
\<close>

record display_flags =
  GFX_CTX_FLAGS_GL_CORE_CONTEXT :: nat
  GFX_CTX_FLAGS_CUSTOMIZABLE_SWAPCHAIN_IMAGES :: nat
  GFX_CTX_FLAGS_SHADERS_GLSL :: nat
  GFX_CTX_FLAGS_SHADERS_SLANG :: nat

subsection \<open>Helpers that are not in the file\<close>

definition emit :: "call \<Rightarrow> world \<Rightarrow> world" where
  "emit c w = w\<lparr>calls := calls w @ [c]\<rparr>"

text \<open>
  Modelled from the spec: the macros \<open>BIT32_SET\<close> and \<open>BIT32_GET\<close> are not under
  src/. The spec's flag set is a bitset in which an operation "sets" a flag and a
  reader tests whether one is "contained": \<open>BIT32_SET\<close> turns on bit \<open>bit & 31\<close> of
  the 32-bit word and \<open>BIT32_GET\<close> reads that bit.
\<close>

definition BIT32_SET :: "u32 \<Rightarrow> nat \<Rightarrow> u32" where
  "BIT32_SET a b = a OR push_bit (b mod 32) 1"

definition BIT32_GET :: "u32 \<Rightarrow> nat \<Rightarrow> u32" where
  "BIT32_GET a b = drop_bit (b mod 32) a AND 1"

text \<open>
  Modelled from the spec: \<open>string_is_equal\<close> is not under src/. The spec has the
  identifier "equal" a backend name; a null pointer equals nothing.
\<close>

definition string_is_equal :: "string option \<Rightarrow> string option \<Rightarrow> bool" where
  "string_is_equal a b =
     (case a of None \<Rightarrow> False
      | Some x \<Rightarrow> (case b of None \<Rightarrow> False | Some y \<Rightarrow> x = y))"

text \<open>What \<open>calloc(1, sizeof(gfx_ctx_drm_data_t))\<close> hands out: every byte zero.\<close>

definition calloc_gfx_ctx_drm_data :: gfx_ctx_drm_data where
  "calloc_gfx_ctx_drm_data =
     \<lparr>egl = 0, display = None, presenter = None, context = None, interval = 0,
      fb_width = 0, fb_height = 0, core_hw_context_enable = False\<rparr>"

subsection \<open>The functions of the file\<close>

definition gfx_ctx_drm_get_proc_address ::
    "build_config \<Rightarrow> platform \<Rightarrow> string \<Rightarrow> world \<Rightarrow> addr option \<times> world" where
  "gfx_ctx_drm_get_proc_address cfg plat symbol w =
     (case drm_api w of
        GFX_CTX_OPENGL_API \<Rightarrow>
          if HAVE_EGL cfg
          then (egl_get_proc_address plat (calls w) symbol, emit (Call_egl_get_proc_address symbol) w)
          else (None, w)
      | GFX_CTX_OPENGL_ES_API \<Rightarrow>
          if HAVE_EGL cfg
          then (egl_get_proc_address plat (calls w) symbol, emit (Call_egl_get_proc_address symbol) w)
          else (None, w)
      | GFX_CTX_OPENVG_API \<Rightarrow>
          if HAVE_EGL cfg
          then (egl_get_proc_address plat (calls w) symbol, emit (Call_egl_get_proc_address symbol) w)
          else (None, w)
      | GFX_CTX_NONE \<Rightarrow> (None, w)
      | GFX_CTX_OTHER_API k \<Rightarrow> (None, w))"

definition gfx_ctx_drm_init :: "platform \<Rightarrow> world \<Rightarrow> gfx_ctx_drm_data option \<times> world" where
  "gfx_ctx_drm_init plat w =
     (if \<not> calloc_succeeds plat (calls w) then (None, w)
      else
        let drm = calloc_gfx_ctx_drm_data;
            d = go2_display_create plat (calls w);
            w1 = emit Call_go2_display_create w;
            drm = drm\<lparr>display := d\<rparr>;
            p = go2_presenter_create plat (calls w1) (display drm) DRM_FORMAT_RGB565 0xff080808;
            w2 = emit (Call_go2_presenter_create (display drm) DRM_FORMAT_RGB565 0xff080808) w1;
            drm = drm\<lparr>presenter := p\<rparr>
        in (Some drm, w2))"

definition gfx_ctx_drm_destroy ::
    "gfx_ctx_drm_data option \<Rightarrow> world \<Rightarrow> gfx_ctx_drm_data option \<times> world" where
  "gfx_ctx_drm_destroy data w =
     (case data of
        None \<Rightarrow> (None, w)
      | Some drm \<Rightarrow>
          let (drm1, w1) =
                (if context drm \<noteq> None
                 then (drm\<lparr>context := None\<rparr>, emit (Call_go2_context_destroy (context drm)) w)
                 else (drm, w));
              w2 = emit (Call_go2_presenter_destroy (presenter drm1)) w1;
              drm2 = drm1\<lparr>presenter := None\<rparr>;
              w3 = emit (Call_go2_display_destroy (display drm2)) w2;
              drm3 = drm2\<lparr>display := None\<rparr>
          in (Some drm3, w3))"

definition gfx_ctx_drm_get_api :: "gfx_ctx_drm_data option \<Rightarrow> world \<Rightarrow> gfx_ctx_api" where
  "gfx_ctx_drm_get_api data w = drm_api w"

definition call_egl_bind_api :: "platform \<Rightarrow> egl_api \<Rightarrow> world \<Rightarrow> bool \<times> world" where
  "call_egl_bind_api plat a w = (egl_bind_api plat (calls w) a, emit (Call_egl_bind_api a) w)"

definition gfx_ctx_drm_bind_api ::
    "build_config \<Rightarrow> platform \<Rightarrow> gfx_ctx_api \<Rightarrow> u32 \<Rightarrow> u32 \<Rightarrow> world \<Rightarrow> bool \<times> world" where
  "gfx_ctx_drm_bind_api cfg plat api major minor w =
     (let w1 = w\<lparr>drm_api := api\<rparr>;
          w2 = (if HAVE_EGL cfg then w1\<lparr>g_egl_major := major, g_egl_minor := minor\<rparr> else w1)
      in case api of
           GFX_CTX_OPENGL_API \<Rightarrow>
             if HAVE_EGL cfg \<and> HAVE_OPENGL cfg then
               (if \<not> EGL_KHR_create_context cfg \<and> 3001 \<le> major * 1000 + minor
                then (False, w2)
                else call_egl_bind_api plat EGL_OPENGL_API w2)
             else (False, w2)
         | GFX_CTX_OPENGL_ES_API \<Rightarrow>
             if HAVE_EGL cfg \<and> HAVE_OPENGLES cfg then
               (if \<not> EGL_KHR_create_context cfg \<and> 3 \<le> major
                then (False, w2)
                else call_egl_bind_api plat EGL_OPENGL_ES_API w2)
             else (False, w2)
         | GFX_CTX_OPENVG_API \<Rightarrow>
             if HAVE_EGL cfg \<and> HAVE_VG cfg
             then call_egl_bind_api plat EGL_OPENVG_API w2
             else (False, w2)
         | GFX_CTX_NONE \<Rightarrow> (False, w2)
         | GFX_CTX_OTHER_API k \<Rightarrow> (False, w2))"

definition gfx_ctx_drm_swap_interval ::
    "gfx_ctx_drm_data option \<Rightarrow> s32 \<Rightarrow> world \<Rightarrow> fault + gfx_ctx_drm_data \<times> world" where
  "gfx_ctx_drm_swap_interval data n w =
     (case data of
        None \<Rightarrow> Inl Null_dereference
      | Some drm \<Rightarrow>
          Inr (drm\<lparr>interval := n\<rparr>,
               if 1 < sint n
               then emit (Call_RARCH_WARN
                 ''[KMS]: Swap intervals > 1 currently not supported. Will use swap interval of 1.\<newline>'') w
               else w))"

definition gfx_ctx_drm_set_video_mode ::
    "platform \<Rightarrow> gfx_ctx_drm_data option \<Rightarrow> u32 \<Rightarrow> u32 \<Rightarrow> bool \<Rightarrow> world
      \<Rightarrow> bool \<times> gfx_ctx_drm_data option \<times> world" where
  "gfx_ctx_drm_set_video_mode plat data width height fullscreen w =
     (case data of
        None \<Rightarrow> (False, None, w)
      | Some drm \<Rightarrow>
          let w1 = emit Call_frontend_driver_install_signal_handler w;
              drm1 = drm\<lparr>fb_width := 480, fb_height := 320\<rparr>;
              (drm2, w2) =
                (if context drm1 = None then
                   let attr = \<lparr>attr_major = 3, attr_minor = 2, attr_red_bits = 8,
                               attr_green_bits = 8, attr_blue_bits = 8, attr_alpha_bits = 8,
                               attr_depth_bits = 0, attr_stencil_bits = 0\<rparr>
                   in (drm1\<lparr>context := go2_context_create plat (calls w1) (display drm1) 480 320 attr\<rparr>,
                       emit (Call_go2_context_create (display drm1) 480 320 attr) w1)
                 else (drm1, w1));
              w3 = emit (Call_go2_context_make_current (context drm2)) w2;
              w4 = emit (Call_glClear GL_COLOR_BUFFER_BIT) w3
          in (True, Some drm2, w4))"

definition gfx_ctx_drm_get_video_size ::
    "gfx_ctx_drm_data option \<Rightarrow> u32 \<times> u32 \<Rightarrow> u32 \<times> u32" where
  "gfx_ctx_drm_get_video_size data out =
     (case data of
        None \<Rightarrow> out
      | Some drm \<Rightarrow> (fb_width drm, fb_height drm))"

text \<open>
  The three case labels of \<open>gfx_ctx_drm_swap_buffers\<close> share one body, compiled
  under \<open>HAVE_EGL\<close>; \<open>present\<close> is that body.
\<close>

definition present ::
    "platform \<Rightarrow> gfx_ctx_drm_data option \<Rightarrow> world \<Rightarrow> fault + world" where
  "present plat data w =
     (case data of
        None \<Rightarrow> Inl Null_dereference
      | Some drm \<Rightarrow>
          let w1 = emit (Call_go2_context_swap_buffers (context drm)) w;
              surface = go2_context_surface_lock plat (calls w1) (context drm);
              w2 = emit (Call_go2_context_surface_lock (context drm)) w1;
              w3 = emit (Call_go2_presenter_post (presenter drm) surface
                           0 0 480 320 0 0 320 480 GO2_ROTATION_DEGREES_270) w2;
              w4 = emit (Call_go2_context_surface_unlock (context drm) surface) w3
          in Inr w4)"

definition gfx_ctx_drm_swap_buffers ::
    "build_config \<Rightarrow> platform \<Rightarrow> gfx_ctx_drm_data option \<Rightarrow> world \<Rightarrow> fault + world" where
  "gfx_ctx_drm_swap_buffers cfg plat data w =
     (case drm_api w of
        GFX_CTX_OPENGL_API \<Rightarrow> if HAVE_EGL cfg then present plat data w else Inr w
      | GFX_CTX_OPENGL_ES_API \<Rightarrow> if HAVE_EGL cfg then present plat data w else Inr w
      | GFX_CTX_OPENVG_API \<Rightarrow> if HAVE_EGL cfg then present plat data w else Inr w
      | GFX_CTX_NONE \<Rightarrow> Inr (emit (Call_printf ''unhandled gfx_ctx_drm_swap_buffers\<newline>'') w)
      | GFX_CTX_OTHER_API k \<Rightarrow>
          Inr (emit (Call_printf ''unhandled gfx_ctx_drm_swap_buffers\<newline>'') w))"

definition gfx_ctx_drm_get_flags ::
    "build_config \<Rightarrow> display_flags \<Rightarrow> platform \<Rightarrow> gfx_ctx_drm_data option \<Rightarrow> fault + u32" where
  "gfx_ctx_drm_get_flags cfg fl plat data =
     (case data of
        None \<Rightarrow> Inl Null_dereference
      | Some drm \<Rightarrow>
          let flags = 0;
              flags = BIT32_SET flags (GFX_CTX_FLAGS_CUSTOMIZABLE_SWAPCHAIN_IMAGES fl);
              flags = (if core_hw_context_enable drm
                       then BIT32_SET flags (GFX_CTX_FLAGS_GL_CORE_CONTEXT fl) else flags);
              flags = (if string_is_equal (video_driver_get_ident plat) (Some ''glcore'')
                       then (if HAVE_SLANG cfg \<and> HAVE_SPIRV_CROSS cfg
                             then BIT32_SET flags (GFX_CTX_FLAGS_SHADERS_SLANG fl) else flags)
                       else BIT32_SET flags (GFX_CTX_FLAGS_SHADERS_GLSL fl))
          in Inr flags)"

text \<open>
  \<open>gfx_ctx_drm_set_flags\<close> writes through \<open>drm\<close> only inside the \<open>if\<close>: a flag
  word without the core bit returns normally on a null handle too.
\<close>

definition gfx_ctx_drm_set_flags ::
    "display_flags \<Rightarrow> gfx_ctx_drm_data option \<Rightarrow> u32 \<Rightarrow> fault + gfx_ctx_drm_data option" where
  "gfx_ctx_drm_set_flags fl data flags =
     (if BIT32_GET flags (GFX_CTX_FLAGS_GL_CORE_CONTEXT fl) \<noteq> 0
      then (case data of
              None \<Rightarrow> Inl Null_dereference
            | Some drm \<Rightarrow> Inr (Some (drm\<lparr>core_hw_context_enable := True\<rparr>)))
      else Inr data)"

text \<open>
  \<open>egl_bind_hw_render(&drm->egl, enable)\<close>: the file only forms the address of the
  first member and makes the call. On a null handle that address is null and there is
  no struct for the callee to update; otherwise the callee may update \<open>drm->egl\<close>.
\<close>

definition call_egl_bind_hw_render ::
    "platform \<Rightarrow> gfx_ctx_drm_data option \<Rightarrow> bool \<Rightarrow> world
      \<Rightarrow> gfx_ctx_drm_data option \<times> world" where
  "call_egl_bind_hw_render plat data enable w =
     (case data of
        None \<Rightarrow> (None, emit (Call_egl_bind_hw_render None enable) w)
      | Some drm \<Rightarrow>
          (Some (drm\<lparr>egl := egl_bind_hw_render plat (calls w) (egl drm) enable\<rparr>),
           emit (Call_egl_bind_hw_render (Some (egl drm)) enable) w))"

definition gfx_ctx_drm_bind_hw_render ::
    "build_config \<Rightarrow> platform \<Rightarrow> gfx_ctx_drm_data option \<Rightarrow> bool \<Rightarrow> world
      \<Rightarrow> fault + gfx_ctx_drm_data option \<times> world" where
  "gfx_ctx_drm_bind_hw_render cfg plat data enable w =
     (let gpu = (if HAVE_EGL cfg
                 then Inr (call_egl_bind_hw_render plat data enable w)
                 else Inr (data, w))
      in case drm_api w of
           GFX_CTX_OPENGL_API \<Rightarrow> gpu
         | GFX_CTX_OPENGL_ES_API \<Rightarrow> gpu
         | GFX_CTX_OPENVG_API \<Rightarrow> gpu
         | GFX_CTX_NONE \<Rightarrow> Inr (data, w)
         | GFX_CTX_OTHER_API k \<Rightarrow> Inr (data, w))"

subsection \<open>Sequences of driver calls\<close>

text \<open>
  The host reaches the functions through the table \<open>gfx_ctx_drm\<close> and calls them
  one after the other on the handle \<open>gfx_ctx_drm_init\<close> returned. A
  \<open>driver_op\<close> is one such call with its arguments; \<open>exec_op\<close> runs it on the
  pair of the handle's struct and the world, \<open>exec_ops\<close> runs a list of them and
  stops at the first fault.
\<close>

datatype driver_op =
    Op_bind_api gfx_ctx_api u32 u32
  | Op_swap_interval s32
  | Op_set_video_mode u32 u32 bool
  | Op_get_video_size
  | Op_swap_buffers
  | Op_get_proc_address string
  | Op_get_flags
  | Op_set_flags u32
  | Op_bind_hw_render bool
  | Op_destroy

type_synonym session = "gfx_ctx_drm_data option \<times> world"

fun exec_op ::
    "build_config \<Rightarrow> display_flags \<Rightarrow> platform \<Rightarrow> driver_op \<Rightarrow> session \<Rightarrow> fault + session" where
  "exec_op cfg fl plat (Op_bind_api api major minor) (data, w) =
     Inr (data, snd (gfx_ctx_drm_bind_api cfg plat api major minor w))"
| "exec_op cfg fl plat (Op_swap_interval n) (data, w) =
     (case gfx_ctx_drm_swap_interval data n w of
        Inl f \<Rightarrow> Inl f
      | Inr (drm, w1) \<Rightarrow> Inr (Some drm, w1))"
| "exec_op cfg fl plat (Op_set_video_mode width height fullscreen) (data, w) =
     Inr (snd (gfx_ctx_drm_set_video_mode plat data width height fullscreen w))"
| "exec_op cfg fl plat Op_get_video_size (data, w) = Inr (data, w)"
| "exec_op cfg fl plat Op_swap_buffers (data, w) =
     (case gfx_ctx_drm_swap_buffers cfg plat data w of
        Inl f \<Rightarrow> Inl f
      | Inr w1 \<Rightarrow> Inr (data, w1))"
| "exec_op cfg fl plat (Op_get_proc_address symbol) (data, w) =
     Inr (data, snd (gfx_ctx_drm_get_proc_address cfg plat symbol w))"
| "exec_op cfg fl plat Op_get_flags (data, w) =
     (case gfx_ctx_drm_get_flags cfg fl plat data of
        Inl f \<Rightarrow> Inl f
      | Inr flags \<Rightarrow> Inr (data, w))"
| "exec_op cfg fl plat (Op_set_flags flags) (data, w) =
     (case gfx_ctx_drm_set_flags fl data flags of
        Inl f \<Rightarrow> Inl f
      | Inr data1 \<Rightarrow> Inr (data1, w))"
| "exec_op cfg fl plat (Op_bind_hw_render enable) (data, w) =
     gfx_ctx_drm_bind_hw_render cfg plat data enable w"
| "exec_op cfg fl plat Op_destroy (data, w) = Inr (gfx_ctx_drm_destroy data w)"

fun exec_ops ::
    "build_config \<Rightarrow> display_flags \<Rightarrow> platform \<Rightarrow> driver_op list \<Rightarrow> session \<Rightarrow> fault + session" where
  "exec_ops cfg fl plat [] s = Inr s"
| "exec_ops cfg fl plat (x # xs) s =
     (case exec_op cfg fl plat x s of
        Inl f \<Rightarrow> Inl f
      | Inr s1 \<Rightarrow> exec_ops cfg fl plat xs s1)"

fun is_set_video_mode :: "driver_op \<Rightarrow> bool" where
  "is_set_video_mode (Op_set_video_mode width height fullscreen) = True"
| "is_set_video_mode x = False"

fun is_destroy :: "driver_op \<Rightarrow> bool" where
  "is_destroy Op_destroy = True"
| "is_destroy x = False"

fun is_context_create :: "call \<Rightarrow> bool" where
  "is_context_create (Call_go2_context_create d width height attr) = True"
| "is_context_create c = False"

text \<open>The \<open>context\<close> field behind a handle; a null handle has none.\<close>

definition context_of :: "gfx_ctx_drm_data option \<Rightarrow> addr option" where
  "context_of data = (case data of None \<Rightarrow> None | Some drm \<Rightarrow> context drm)"

text \<open>Whether a flag word contains a flag, read the way \<open>gfx_ctx_drm_set_flags\<close> reads it.\<close>

definition has_flag :: "u32 \<Rightarrow> nat \<Rightarrow> bool" where
  "has_flag flags b = (BIT32_GET flags b \<noteq> 0)"

definition is_gpu_api :: "gfx_ctx_api \<Rightarrow> bool" where
  "is_gpu_api api =
     (case api of
        GFX_CTX_OPENGL_API \<Rightarrow> True
      | GFX_CTX_OPENGL_ES_API \<Rightarrow> True
      | GFX_CTX_OPENVG_API \<Rightarrow> True
      | GFX_CTX_NONE \<Rightarrow> False
      | GFX_CTX_OTHER_API k \<Rightarrow> False)"

subsection \<open>Concrete builds, platforms and worlds\<close>

text \<open>
  The world at program start: \<open>drm_api\<close> has the initialiser \<open>GFX_CTX_NONE\<close>, the
  EGL globals are zero and nothing has been called.
\<close>

definition boot_world :: world where
  "boot_world = \<lparr>drm_api = GFX_CTX_NONE, g_egl_major = 0, g_egl_minor = 0, calls = []\<rparr>"

text \<open>A build with EGL and OpenGL-ES and without the other options, and one without EGL.\<close>

definition gles_build :: build_config where
  "gles_build =
     \<lparr>HAVE_EGL = True, HAVE_OPENGL = False, HAVE_OPENGLES = True, HAVE_VG = False,
      EGL_KHR_create_context = False, HAVE_SLANG = False, HAVE_SPIRV_CROSS = False\<rparr>"

definition no_egl_build :: build_config where
  "no_egl_build =
     \<lparr>HAVE_EGL = False, HAVE_OPENGL = False, HAVE_OPENGLES = True, HAVE_VG = False,
      EGL_KHR_create_context = False, HAVE_SLANG = False, HAVE_SPIRV_CROSS = False\<rparr>"

text \<open>
  A platform on which every creation succeeds and every lock hands out a fresh
  surface, and the same platform with a context creation that fails.
\<close>

definition working_platform :: platform where
  "working_platform =
     \<lparr>calloc_succeeds = (\<lambda>cs. True),
      go2_display_create = (\<lambda>cs. Some 1),
      go2_presenter_create = (\<lambda>cs d f b. Some 2),
      go2_context_create = (\<lambda>cs d width height attr. Some 3),
      go2_context_surface_lock = (\<lambda>cs c. Some (10 + length cs)),
      egl_get_proc_address = (\<lambda>cs symbol. Some 5),
      egl_bind_api = (\<lambda>cs a. True),
      egl_bind_hw_render = (\<lambda>cs e enable. e),
      video_driver_get_ident = Some ''gl''\<rparr>"

definition no_context_platform :: platform where
  "no_context_platform =
     working_platform\<lparr>go2_context_create := (\<lambda>cs d width height attr. None)\<rparr>"

text \<open>A numbering of the four flags, and a struct as a session may hold it.\<close>

definition sample_flags :: display_flags where
  "sample_flags =
     \<lparr>GFX_CTX_FLAGS_GL_CORE_CONTEXT = 1, GFX_CTX_FLAGS_CUSTOMIZABLE_SWAPCHAIN_IMAGES = 3,
      GFX_CTX_FLAGS_SHADERS_GLSL = 8, GFX_CTX_FLAGS_SHADERS_SLANG = 11\<rparr>"

definition fresh_drm :: gfx_ctx_drm_data where
  "fresh_drm = calloc_gfx_ctx_drm_data\<lparr>display := Some 1, presenter := Some 2\<rparr>"

definition sample_drm :: gfx_ctx_drm_data where
  "sample_drm =
     \<lparr>egl = 0, display = Some 1, presenter = Some 2, context = Some 3, interval = 0,
      fb_width = 480, fb_height = 320, core_hw_context_enable = False\<rparr>"

section \<open>Facts about the functions\<close>

subsection \<open>The calls each function makes and the fields it writes\<close>

lemma present_Some:
  "present plat (Some drm) w =
     Inr (w\<lparr>calls := calls w @
       [Call_go2_context_swap_buffers (context drm),
        Call_go2_context_surface_lock (context drm),
        Call_go2_presenter_post (presenter drm)
          (go2_context_surface_lock plat
             (calls w @ [Call_go2_context_swap_buffers (context drm)]) (context drm))
          0 0 480 320 0 0 320 480 GO2_ROTATION_DEGREES_270,
        Call_go2_context_surface_unlock (context drm)
          (go2_context_surface_lock plat
             (calls w @ [Call_go2_context_swap_buffers (context drm)]) (context drm))]\<rparr>)"
  by (simp add: present_def emit_def Let_def)

lemma bind_api_calls_creations:
  "filter is_context_create (calls (snd (gfx_ctx_drm_bind_api cfg plat api major minor w))) =
     filter is_context_create (calls w)"
  by (cases api) (simp_all add: gfx_ctx_drm_bind_api_def call_egl_bind_api_def emit_def Let_def)

lemma get_proc_address_calls_creations:
  "filter is_context_create (calls (snd (gfx_ctx_drm_get_proc_address cfg plat symbol w))) =
     filter is_context_create (calls w)"
  by (cases "drm_api w") (simp_all add: gfx_ctx_drm_get_proc_address_def emit_def)

lemma swap_buffers_Some:
  "\<exists>w1. gfx_ctx_drm_swap_buffers cfg plat (Some drm) w = Inr w1 \<and>
     filter is_context_create (calls w1) = filter is_context_create (calls w)"
  by (cases "drm_api w")
     (simp_all add: gfx_ctx_drm_swap_buffers_def present_def emit_def Let_def)

lemma bind_hw_render_Some:
  "\<exists>drm1 w1. gfx_ctx_drm_bind_hw_render cfg plat (Some drm) enable w = Inr (Some drm1, w1) \<and>
     context drm1 = context drm \<and>
     filter is_context_create (calls w1) = filter is_context_create (calls w)"
  by (cases "drm_api w")
     (simp_all add: gfx_ctx_drm_bind_hw_render_def call_egl_bind_hw_render_def emit_def Let_def)

lemma set_video_mode_Some:
  "\<exists>drm1 w1. gfx_ctx_drm_set_video_mode plat (Some drm) width height fullscreen w =
       (True, Some drm1, w1) \<and>
     fb_width drm1 = 480 \<and> fb_height drm1 = 320 \<and>
     context drm1 =
       (if context drm = None
        then go2_context_create plat (calls w @ [Call_frontend_driver_install_signal_handler])
               (display drm) 480 320
               \<lparr>attr_major = 3, attr_minor = 2, attr_red_bits = 8, attr_green_bits = 8,
                attr_blue_bits = 8, attr_alpha_bits = 8, attr_depth_bits = 0,
                attr_stencil_bits = 0\<rparr>
        else context drm) \<and>
     filter is_context_create (calls w1) =
       (if context drm = None
        then filter is_context_create (calls w) @
          [Call_go2_context_create (display drm) 480 320
             \<lparr>attr_major = 3, attr_minor = 2, attr_red_bits = 8, attr_green_bits = 8,
              attr_blue_bits = 8, attr_alpha_bits = 8, attr_depth_bits = 0,
              attr_stencil_bits = 0\<rparr>]
        else filter is_context_create (calls w))"
  by (simp add: gfx_ctx_drm_set_video_mode_def emit_def Let_def)

lemma destroy_Some:
  "gfx_ctx_drm_destroy (Some drm) w =
     (Some (drm\<lparr>context := None, presenter := None, display := None\<rparr>),
      w\<lparr>calls := calls w @
        (case context drm of None \<Rightarrow> [] | Some c \<Rightarrow> [Call_go2_context_destroy (Some c)]) @
        [Call_go2_presenter_destroy (presenter drm), Call_go2_display_destroy (display drm)]\<rparr>)"
  by (cases "context drm") (simp_all add: gfx_ctx_drm_destroy_def emit_def Let_def)

lemma set_flags_Some:
  "gfx_ctx_drm_set_flags fl (Some drm) flags =
     Inr (Some (if has_flag flags (GFX_CTX_FLAGS_GL_CORE_CONTEXT fl)
                then drm\<lparr>core_hw_context_enable := True\<rparr> else drm))"
  by (simp add: gfx_ctx_drm_set_flags_def has_flag_def)

lemma bind_api_drm_api:
  "drm_api (snd (gfx_ctx_drm_bind_api cfg plat api major minor w)) = api"
  by (cases api) (simp_all add: gfx_ctx_drm_bind_api_def call_egl_bind_api_def emit_def Let_def)

lemma bind_api_version:
  "g_egl_major (snd (gfx_ctx_drm_bind_api cfg plat api major minor w)) =
     (if HAVE_EGL cfg then major else g_egl_major w) \<and>
   g_egl_minor (snd (gfx_ctx_drm_bind_api cfg plat api major minor w)) =
     (if HAVE_EGL cfg then minor else g_egl_minor w)"
  by (cases api) (simp_all add: gfx_ctx_drm_bind_api_def call_egl_bind_api_def emit_def Let_def)

lemma get_proc_address_dispatch:
  "gfx_ctx_drm_get_proc_address cfg plat symbol w =
     (if is_gpu_api (drm_api w) \<and> HAVE_EGL cfg
      then (egl_get_proc_address plat (calls w) symbol, emit (Call_egl_get_proc_address symbol) w)
      else (None, w))"
  by (cases "drm_api w") (simp_all add: gfx_ctx_drm_get_proc_address_def is_gpu_api_def)

lemma swap_buffers_dispatch:
  "gfx_ctx_drm_swap_buffers cfg plat data w =
     (if is_gpu_api (drm_api w)
      then (if HAVE_EGL cfg then present plat data w else Inr w)
      else Inr (emit (Call_printf ''unhandled gfx_ctx_drm_swap_buffers\<newline>'') w))"
  by (cases "drm_api w") (simp_all add: gfx_ctx_drm_swap_buffers_def is_gpu_api_def)

lemma bind_hw_render_dispatch:
  "gfx_ctx_drm_bind_hw_render cfg plat (Some drm) enable w =
     (if is_gpu_api (drm_api w) \<and> HAVE_EGL cfg
      then Inr (Some (drm\<lparr>egl := egl_bind_hw_render plat (calls w) (egl drm) enable\<rparr>),
                emit (Call_egl_bind_hw_render (Some (egl drm)) enable) w)
      else Inr (Some drm, w))"
  by (cases "drm_api w")
     (simp_all add: gfx_ctx_drm_bind_hw_render_def call_egl_bind_hw_render_def is_gpu_api_def)

text \<open>On a null handle, the two functions that do not always read through it.\<close>

lemma set_flags_null:
  "gfx_ctx_drm_set_flags fl None flags =
     (if has_flag flags (GFX_CTX_FLAGS_GL_CORE_CONTEXT fl) then Inl Null_dereference else Inr None)"
  by (simp add: gfx_ctx_drm_set_flags_def has_flag_def)

lemma bind_hw_render_null:
  "gfx_ctx_drm_bind_hw_render cfg plat None enable w =
     (if is_gpu_api (drm_api w) \<and> HAVE_EGL cfg
      then Inr (None, emit (Call_egl_bind_hw_render None enable) w)
      else Inr (None, w))"
  by (cases "drm_api w")
     (simp_all add: gfx_ctx_drm_bind_hw_render_def call_egl_bind_hw_render_def is_gpu_api_def)

text \<open>
  The OpenGL version test of \<open>gfx_ctx_drm_bind_api\<close> is on \<open>unsigned\<close> operands:
  the sum it compares is the sum of the numbers modulo \<open>2 ^ 32\<close>.
\<close>

lemma opengl_version_gate:
  "(3001 \<le> (major :: u32) * 1000 + minor) =
     (3001 \<le> (unat major * 1000 + unat minor) mod 2 ^ 32)"
proof -
  have "unat (major * 1000 + minor) = (unat major * 1000 + unat minor) mod 2 ^ 32"
    by (simp add: unat_word_ariths mod_simps)
  then show ?thesis
    by (simp add: word_le_nat_alt)
qed

subsection \<open>Flag words\<close>

lemma has_flag_bit: "has_flag a c = bit a (c mod 32)"
  by (simp add: has_flag_def BIT32_GET_def bit_iff_odd_drop_bit and_one_eq mod_2_eq_odd)

lemma has_flag_zero: "\<not> has_flag 0 c"
  by (simp add: has_flag_bit)

lemma has_flag_BIT32_SET: "has_flag (BIT32_SET a b) c = (has_flag a c \<or> b mod 32 = c mod 32)"
  by (auto simp add: has_flag_bit BIT32_SET_def bit_or_iff bit_exp_iff)

lemma string_is_equal_Some: "string_is_equal a (Some y) = (a = Some y)"
  by (cases a) (auto simp add: string_is_equal_def)

subsection \<open>Sequences of calls on a non-null handle\<close>

text \<open>
  On a non-null handle no call of the table faults, the handle stays non-null, and
  only \<open>gfx_ctx_drm_set_video_mode\<close> and \<open>gfx_ctx_drm_destroy\<close> write \<open>context\<close>.
\<close>

lemma exec_op_Some:
  "\<exists>drm1 w1. exec_op cfg fl plat x (Some drm, w) = Inr (Some drm1, w1) \<and>
     (\<not> is_set_video_mode x \<and> \<not> is_destroy x \<longrightarrow>
        context drm1 = context drm \<and>
        filter is_context_create (calls w1) = filter is_context_create (calls w)) \<and>
     (is_set_video_mode x \<and> context drm \<noteq> None \<longrightarrow>
        context drm1 = context drm \<and>
        filter is_context_create (calls w1) = filter is_context_create (calls w)) \<and>
     (is_destroy x \<longrightarrow> context drm1 = None)"
proof (cases x)
  case (Op_bind_api api major minor)
  then show ?thesis by (simp add: bind_api_calls_creations)
next
  case (Op_swap_interval n)
  then show ?thesis by (simp add: gfx_ctx_drm_swap_interval_def emit_def)
next
  case (Op_set_video_mode width height fullscreen)
  from set_video_mode_Some [of plat drm width height fullscreen w]
  obtain drm1 w1 where
    "gfx_ctx_drm_set_video_mode plat (Some drm) width height fullscreen w = (True, Some drm1, w1)"
    "context drm \<noteq> None \<longrightarrow> context drm1 = context drm \<and>
       filter is_context_create (calls w1) = filter is_context_create (calls w)"
    by auto
  with Op_set_video_mode show ?thesis by simp
next
  case Op_get_video_size
  then show ?thesis by simp
next
  case Op_swap_buffers
  from swap_buffers_Some [of cfg plat drm w] obtain w1 where
    "gfx_ctx_drm_swap_buffers cfg plat (Some drm) w = Inr w1"
    "filter is_context_create (calls w1) = filter is_context_create (calls w)"
    by auto
  with Op_swap_buffers show ?thesis by simp
next
  case (Op_get_proc_address symbol)
  then show ?thesis by (simp add: get_proc_address_calls_creations)
next
  case Op_get_flags
  then show ?thesis by (simp add: gfx_ctx_drm_get_flags_def Let_def)
next
  case (Op_set_flags flags)
  then show ?thesis by (simp add: set_flags_Some)
next
  case (Op_bind_hw_render enable)
  from bind_hw_render_Some [of cfg plat drm enable w] obtain drm1 w1 where
    "gfx_ctx_drm_bind_hw_render cfg plat (Some drm) enable w = Inr (Some drm1, w1)"
    "context drm1 = context drm"
    "filter is_context_create (calls w1) = filter is_context_create (calls w)"
    by auto
  with Op_bind_hw_render show ?thesis by simp
next
  case Op_destroy
  then show ?thesis by (simp add: destroy_Some)
qed

lemma exec_ops_context_null:
  "list_all (\<lambda>x. \<not> is_set_video_mode x) xs \<Longrightarrow> context drm = None \<Longrightarrow>
     \<exists>drm1 w1. exec_ops cfg fl plat xs (Some drm, w) = Inr (Some drm1, w1) \<and> context drm1 = None"
proof (induction xs arbitrary: drm w)
  case Nil
  then show ?case by simp
next
  case (Cons x xs)
  from exec_op_Some [of cfg fl plat x drm w] obtain drm1 w1 where
    step: "exec_op cfg fl plat x (Some drm, w) = Inr (Some drm1, w1)"
    and keep: "\<not> is_set_video_mode x \<and> \<not> is_destroy x \<longrightarrow> context drm1 = context drm"
    and gone: "is_destroy x \<longrightarrow> context drm1 = None"
    by blast
  from Cons.prems keep gone have "context drm1 = None" by (cases "is_destroy x") simp_all
  moreover from Cons.prems have "list_all (\<lambda>x. \<not> is_set_video_mode x) xs" by simp
  ultimately obtain drm2 w2 where
    "exec_ops cfg fl plat xs (Some drm1, w1) = Inr (Some drm2, w2)" "context drm2 = None"
    using Cons.IH by blast
  with step show ?case by simp
qed

lemma exec_ops_context_kept:
  "list_all (\<lambda>x. \<not> is_destroy x) xs \<Longrightarrow> context drm \<noteq> None \<Longrightarrow>
     \<exists>drm1 w1. exec_ops cfg fl plat xs (Some drm, w) = Inr (Some drm1, w1) \<and>
       context drm1 = context drm \<and>
       filter is_context_create (calls w1) = filter is_context_create (calls w)"
proof (induction xs arbitrary: drm w)
  case Nil
  then show ?case by simp
next
  case (Cons x xs)
  from exec_op_Some [of cfg fl plat x drm w] obtain drm1 w1 where
    step: "exec_op cfg fl plat x (Some drm, w) = Inr (Some drm1, w1)"
    and keep: "\<not> is_set_video_mode x \<and> \<not> is_destroy x \<longrightarrow>
        context drm1 = context drm \<and>
        filter is_context_create (calls w1) = filter is_context_create (calls w)"
    and again: "is_set_video_mode x \<and> context drm \<noteq> None \<longrightarrow>
        context drm1 = context drm \<and>
        filter is_context_create (calls w1) = filter is_context_create (calls w)"
    by blast
  from Cons.prems have nd: "\<not> is_destroy x" by simp
  with Cons.prems keep again have same: "context drm1 = context drm"
    "filter is_context_create (calls w1) = filter is_context_create (calls w)"
    by (cases "is_set_video_mode x"; simp)+
  moreover from Cons.prems have "list_all (\<lambda>x. \<not> is_destroy x) xs" by simp
  moreover from same Cons.prems have "context drm1 \<noteq> None" by simp
  ultimately obtain drm2 w2 where
    "exec_ops cfg fl plat xs (Some drm1, w1) = Inr (Some drm2, w2)"
    "context drm2 = context drm1"
    "filter is_context_create (calls w2) = filter is_context_create (calls w1)"
    using Cons.IH by blast
  with step same show ?case by simp
qed

section \<open>The claims\<close>

subsection \<open>C1\<close>

text \<open>
  Claim C1, as the code has it. The present sequence sits under \<open>#ifdef HAVE_EGL\<close>.
  In a build with EGL, whenever the selected API is OpenGL, OpenGL-ES or OpenVG, one
  call of \<open>gfx_ctx_drm_swap_buffers\<close> on a non-null handle makes exactly four calls,
  in this order: swap the buffers of the context, lock its surface, post the locked
  surface to the presenter with source rectangle (0,0,480,320), destination rectangle
  (0,0,320,480) and rotation 270 degrees, unlock the same surface on the same context.
  In a build without EGL the call does nothing for these three APIs. For every other
  selected API the call only prints one line; the globals are as before.
\<close>

theorem swap_buffers_sequence:
  "(HAVE_EGL cfg \<and> is_gpu_api (drm_api w) \<longrightarrow>
      gfx_ctx_drm_swap_buffers cfg plat (Some drm) w =
        Inr (w\<lparr>calls := calls w @
          [Call_go2_context_swap_buffers (context drm),
           Call_go2_context_surface_lock (context drm),
           Call_go2_presenter_post (presenter drm)
             (go2_context_surface_lock plat
                (calls w @ [Call_go2_context_swap_buffers (context drm)]) (context drm))
             0 0 480 320 0 0 320 480 GO2_ROTATION_DEGREES_270,
           Call_go2_context_surface_unlock (context drm)
             (go2_context_surface_lock plat
                (calls w @ [Call_go2_context_swap_buffers (context drm)]) (context drm))]\<rparr>)) \<and>
   (\<not> HAVE_EGL cfg \<and> is_gpu_api (drm_api w) \<longrightarrow>
      gfx_ctx_drm_swap_buffers cfg plat data w = Inr w) \<and>
   (\<not> is_gpu_api (drm_api w) \<longrightarrow>
      gfx_ctx_drm_swap_buffers cfg plat data w =
        Inr (w\<lparr>calls := calls w @ [Call_printf ''unhandled gfx_ctx_drm_swap_buffers\<newline>'']\<rparr>))"
  by (cases "drm_api w")
     (simp_all add: gfx_ctx_drm_swap_buffers_def is_gpu_api_def present_Some emit_def)

text \<open>
  The three cases at concrete inputs: OpenGL-ES on a build with EGL (the surface the
  lock hands out is the one posted and unlocked), OpenVG on a build without EGL, and
  no API selected.
\<close>

theorem swap_buffers_sequence_witness:
  "gfx_ctx_drm_swap_buffers gles_build working_platform (Some sample_drm)
       (boot_world\<lparr>drm_api := GFX_CTX_OPENGL_ES_API\<rparr>) =
     Inr (boot_world\<lparr>drm_api := GFX_CTX_OPENGL_ES_API,
       calls := [Call_go2_context_swap_buffers (Some 3),
                 Call_go2_context_surface_lock (Some 3),
                 Call_go2_presenter_post (Some 2) (Some 11) 0 0 480 320 0 0 320 480
                   GO2_ROTATION_DEGREES_270,
                 Call_go2_context_surface_unlock (Some 3) (Some 11)]\<rparr>) \<and>
   gfx_ctx_drm_swap_buffers no_egl_build working_platform None
       (boot_world\<lparr>drm_api := GFX_CTX_OPENVG_API\<rparr>) =
     Inr (boot_world\<lparr>drm_api := GFX_CTX_OPENVG_API\<rparr>) \<and>
   gfx_ctx_drm_swap_buffers gles_build working_platform (Some sample_drm) boot_world =
     Inr (boot_world\<lparr>calls := [Call_printf ''unhandled gfx_ctx_drm_swap_buffers\<newline>'']\<rparr>)"
  using swap_buffers_sequence [of gles_build "boot_world\<lparr>drm_api := GFX_CTX_OPENGL_ES_API\<rparr>"
          working_platform sample_drm "Some sample_drm"]
        swap_buffers_sequence [of no_egl_build "boot_world\<lparr>drm_api := GFX_CTX_OPENVG_API\<rparr>"
          working_platform sample_drm None]
        swap_buffers_sequence [of gles_build boot_world working_platform sample_drm "Some sample_drm"]
  by (simp add: gles_build_def no_egl_build_def is_gpu_api_def boot_world_def sample_drm_def
        working_platform_def)

text \<open>
  Claim C1 as it was stated fails on a build without EGL: with OpenGL-ES selected and
  a non-null handle, the call returns the world as it was, whose list of calls is
  empty: no swap, no lock, no post, no unlock.
\<close>

theorem swap_buffers_without_egl:
  "drm_api (boot_world\<lparr>drm_api := GFX_CTX_OPENGL_ES_API\<rparr>) = GFX_CTX_OPENGL_ES_API \<and>
   gfx_ctx_drm_swap_buffers no_egl_build working_platform (Some sample_drm)
       (boot_world\<lparr>drm_api := GFX_CTX_OPENGL_ES_API\<rparr>) =
     Inr (boot_world\<lparr>drm_api := GFX_CTX_OPENGL_ES_API\<rparr>) \<and>
   calls (boot_world\<lparr>drm_api := GFX_CTX_OPENGL_ES_API\<rparr>) = []"
  by (simp add: gfx_ctx_drm_swap_buffers_def no_egl_build_def boot_world_def)

subsection \<open>C2\<close>

text \<open>
  Claim C2, as the code has it. (1) The handle \<open>gfx_ctx_drm_init\<close> returns has a null
  \<open>context\<close>. (2) Any sequence of calls without a set-video-mode, on a non-null handle
  whose \<open>context\<close> is null, runs without fault and leaves \<open>context\<close> null. (3) A
  set-video-mode call on such a handle stores in \<open>context\<close> what
  \<open>go2_context_create\<close> returned, unchecked: the field is non-null afterwards exactly
  when the creation returned a context. (4) Once \<open>context\<close> is non-null, any sequence
  of calls without a destroy, further set-video-mode calls included, runs without
  fault, keeps the same context and calls \<open>go2_context_create\<close> no more. (5) After
  \<open>gfx_ctx_drm_destroy\<close> the field is null.
\<close>

theorem rendering_context_lifecycle:
  "context_of (fst (gfx_ctx_drm_init plat w0)) = None \<and>
   (list_all (\<lambda>x. \<not> is_set_video_mode x) xs \<and> context drm = None \<longrightarrow>
      (case exec_ops cfg fl plat xs (Some drm, w) of
         Inl f \<Rightarrow> False
       | Inr (data1, w1) \<Rightarrow> data1 \<noteq> None \<and> context_of data1 = None)) \<and>
   (context drm = None \<longrightarrow>
      (case gfx_ctx_drm_set_video_mode plat (Some drm) width height fullscreen w of
         (ok, data1, w1) \<Rightarrow>
           context_of data1 =
             go2_context_create plat (calls w @ [Call_frontend_driver_install_signal_handler])
               (display drm) 480 320
               \<lparr>attr_major = 3, attr_minor = 2, attr_red_bits = 8, attr_green_bits = 8,
                attr_blue_bits = 8, attr_alpha_bits = 8, attr_depth_bits = 0,
                attr_stencil_bits = 0\<rparr>)) \<and>
   (list_all (\<lambda>x. \<not> is_destroy x) xs \<and> context drm \<noteq> None \<longrightarrow>
      (case exec_ops cfg fl plat xs (Some drm, w) of
         Inl f \<Rightarrow> False
       | Inr (data1, w1) \<Rightarrow>
           context_of data1 = context drm \<and>
           filter is_context_create (calls w1) = filter is_context_create (calls w))) \<and>
   context_of (fst (gfx_ctx_drm_destroy data w)) = None"
proof (intro conjI impI)
  show "context_of (fst (gfx_ctx_drm_init plat w0)) = None"
    by (simp add: gfx_ctx_drm_init_def calloc_gfx_ctx_drm_data_def context_of_def Let_def)
next
  assume "list_all (\<lambda>x. \<not> is_set_video_mode x) xs \<and> context drm = None"
  then obtain drm1 w1 where
    "exec_ops cfg fl plat xs (Some drm, w) = Inr (Some drm1, w1)" "context drm1 = None"
    using exec_ops_context_null [of xs drm cfg fl plat w] by blast
  then show "case exec_ops cfg fl plat xs (Some drm, w) of
         Inl f \<Rightarrow> False
       | Inr (data1, w1) \<Rightarrow> data1 \<noteq> None \<and> context_of data1 = None"
    by (simp add: context_of_def)
next
  assume none: "context drm = None"
  from set_video_mode_Some [of plat drm width height fullscreen w] none
  show "case gfx_ctx_drm_set_video_mode plat (Some drm) width height fullscreen w of
         (ok, data1, w1) \<Rightarrow>
           context_of data1 =
             go2_context_create plat (calls w @ [Call_frontend_driver_install_signal_handler])
               (display drm) 480 320
               \<lparr>attr_major = 3, attr_minor = 2, attr_red_bits = 8, attr_green_bits = 8,
                attr_blue_bits = 8, attr_alpha_bits = 8, attr_depth_bits = 0,
                attr_stencil_bits = 0\<rparr>"
    by (auto simp: context_of_def)
next
  assume "list_all (\<lambda>x. \<not> is_destroy x) xs \<and> context drm \<noteq> None"
  then obtain drm1 w1 where
    "exec_ops cfg fl plat xs (Some drm, w) = Inr (Some drm1, w1)" "context drm1 = context drm"
    "filter is_context_create (calls w1) = filter is_context_create (calls w)"
    using exec_ops_context_kept [of xs drm cfg fl plat w] by blast
  then show "case exec_ops cfg fl plat xs (Some drm, w) of
         Inl f \<Rightarrow> False
       | Inr (data1, w1) \<Rightarrow>
           context_of data1 = context drm \<and>
           filter is_context_create (calls w1) = filter is_context_create (calls w)"
    by (simp add: context_of_def)
next
  show "context_of (fst (gfx_ctx_drm_destroy data w)) = None"
    by (cases data) (simp_all add: destroy_Some context_of_def gfx_ctx_drm_destroy_def)
qed

text \<open>
  On a platform whose creations succeed: a fresh handle keeps a null context through
  bind-api and swap-interval, set-video-mode stores the created context, and a second
  set-video-mode followed by a present keeps it and creates nothing.
\<close>

theorem rendering_context_lifecycle_witness:
  "context_of (fst (gfx_ctx_drm_init working_platform boot_world)) = None \<and>
   (case exec_ops gles_build sample_flags working_platform
           [Op_bind_api GFX_CTX_OPENGL_ES_API 2 0, Op_swap_interval 1]
           (Some fresh_drm, boot_world) of
      Inl f \<Rightarrow> False
    | Inr (data1, w1) \<Rightarrow> data1 \<noteq> None \<and> context_of data1 = None) \<and>
   (case gfx_ctx_drm_set_video_mode working_platform (Some fresh_drm) 800 600 False boot_world of
      (ok, data1, w1) \<Rightarrow> context_of data1 = Some 3) \<and>
   (case exec_ops gles_build sample_flags working_platform
           [Op_set_video_mode 1920 1080 True, Op_swap_buffers]
           (Some sample_drm, boot_world) of
      Inl f \<Rightarrow> False
    | Inr (data1, w1) \<Rightarrow>
        context_of data1 = Some 3 \<and> filter is_context_create (calls w1) = [])"
proof -
  have h1: "list_all (\<lambda>x. \<not> is_set_video_mode x)
              [Op_bind_api GFX_CTX_OPENGL_ES_API 2 0, Op_swap_interval 1] \<and>
            context fresh_drm = None"
    by (simp add: fresh_drm_def calloc_gfx_ctx_drm_data_def)
  have h2: "list_all (\<lambda>x. \<not> is_destroy x) [Op_set_video_mode 1920 1080 True, Op_swap_buffers] \<and>
            context sample_drm \<noteq> None"
    by (simp add: sample_drm_def)
  have e1: "go2_context_create working_platform
              (calls boot_world @ [Call_frontend_driver_install_signal_handler])
              (display fresh_drm) 480 320
              \<lparr>attr_major = 3, attr_minor = 2, attr_red_bits = 8, attr_green_bits = 8,
               attr_blue_bits = 8, attr_alpha_bits = 8, attr_depth_bits = 0,
               attr_stencil_bits = 0\<rparr> = Some 3"
    by (simp add: working_platform_def)
  have e2: "context sample_drm = Some 3"
    by (simp add: sample_drm_def)
  have e3: "filter is_context_create (calls boot_world) = []"
    by (simp add: boot_world_def)
  note first = rendering_context_lifecycle [of working_platform boot_world
      "[Op_bind_api GFX_CTX_OPENGL_ES_API 2 0, Op_swap_interval 1]" fresh_drm gles_build
      sample_flags boot_world 800 600 False None]
  note second = rendering_context_lifecycle [of working_platform boot_world
      "[Op_set_video_mode 1920 1080 True, Op_swap_buffers]" sample_drm gles_build
      sample_flags boot_world 800 600 False None]
  note a = first [THEN conjunct1]
  note b = first [THEN conjunct2, THEN conjunct1, THEN mp, OF h1]
  note c = first [THEN conjunct2, THEN conjunct2, THEN conjunct1, THEN mp, OF h1 [THEN conjunct2],
      unfolded e1]
  note d = second [THEN conjunct2, THEN conjunct2, THEN conjunct2, THEN conjunct1, THEN mp, OF h2,
      unfolded e2 e3]
  show ?thesis
    by (rule conjI [OF a conjI [OF b conjI [OF c d]]])
qed

text \<open>
  Claim C2 as it was stated fails where \<open>go2_context_create\<close> returns null:
  set-video-mode on the handle of \<open>gfx_ctx_drm_init\<close> still returns true, and
  \<open>context\<close> is still null afterwards.
\<close>

theorem set_video_mode_context_stays_null:
  "fst (gfx_ctx_drm_set_video_mode no_context_platform
          (fst (gfx_ctx_drm_init no_context_platform boot_world)) 480 320 True
          (snd (gfx_ctx_drm_init no_context_platform boot_world))) = True \<and>
   fst (gfx_ctx_drm_init no_context_platform boot_world) \<noteq> None \<and>
   context_of (fst (snd (gfx_ctx_drm_set_video_mode no_context_platform
          (fst (gfx_ctx_drm_init no_context_platform boot_world)) 480 320 True
          (snd (gfx_ctx_drm_init no_context_platform boot_world))))) = None"
  by (simp add: gfx_ctx_drm_set_video_mode_def gfx_ctx_drm_init_def no_context_platform_def
        working_platform_def boot_world_def calloc_gfx_ctx_drm_data_def emit_def context_of_def
        Let_def)

subsection \<open>C3\<close>

text \<open>
  Claim C3. \<open>gfx_ctx_drm_destroy\<close> on a null handle changes nothing and calls
  nothing. On a non-null handle it calls \<open>go2_context_destroy\<close> (only when
  \<open>context\<close> is non-null), then \<open>go2_presenter_destroy\<close>, then
  \<open>go2_display_destroy\<close>, in this order and nothing else, and leaves \<open>context\<close>,
  \<open>presenter\<close> and \<open>display\<close> null and every other field as it was.
\<close>

theorem destroy_releases_in_order:
  "gfx_ctx_drm_destroy None w = (None, w) \<and>
   gfx_ctx_drm_destroy (Some drm) w =
     (Some (drm\<lparr>context := None, presenter := None, display := None\<rparr>),
      w\<lparr>calls := calls w @
        (case context drm of None \<Rightarrow> [] | Some c \<Rightarrow> [Call_go2_context_destroy (Some c)]) @
        [Call_go2_presenter_destroy (presenter drm), Call_go2_display_destroy (display drm)]\<rparr>)"
  by (simp add: destroy_Some) (simp add: gfx_ctx_drm_destroy_def)

subsection \<open>C4\<close>

text \<open>
  Claim C4, as the code has it. What \<open>gfx_ctx_drm_bind_api\<close> returns, for every
  \<open>major\<close> and \<open>minor\<close>: for OpenGL compiled in, false when
  \<open>EGL_KHR_create_context\<close> is unavailable and \<open>major * 1000 + minor\<close>, computed as
  the code computes it on \<open>unsigned\<close> operands, that is modulo \<open>2 ^ 32\<close>, is at least
  3001, and otherwise the result of \<open>egl_bind_api\<close>; for OpenGL-ES compiled in, false
  when the extension is unavailable and \<open>major >= 3\<close>, and otherwise the result of
  \<open>egl_bind_api\<close>; for OpenVG compiled in, the result of \<open>egl_bind_api\<close>; false for
  an API that is not compiled in, for \<open>GFX_CTX_NONE\<close> and for every other API.
\<close>

theorem bind_api_result:
  "(HAVE_EGL cfg \<and> HAVE_OPENGL cfg \<longrightarrow>
      fst (gfx_ctx_drm_bind_api cfg plat GFX_CTX_OPENGL_API major minor w) =
        (if \<not> EGL_KHR_create_context cfg \<and> 3001 \<le> (unat major * 1000 + unat minor) mod 2 ^ 32
         then False
         else egl_bind_api plat (calls w) EGL_OPENGL_API)) \<and>
   (HAVE_EGL cfg \<and> HAVE_OPENGLES cfg \<longrightarrow>
      fst (gfx_ctx_drm_bind_api cfg plat GFX_CTX_OPENGL_ES_API major minor w) =
        (if \<not> EGL_KHR_create_context cfg \<and> 3 \<le> unat major then False
         else egl_bind_api plat (calls w) EGL_OPENGL_ES_API)) \<and>
   (HAVE_EGL cfg \<and> HAVE_VG cfg \<longrightarrow>
      fst (gfx_ctx_drm_bind_api cfg plat GFX_CTX_OPENVG_API major minor w) =
        egl_bind_api plat (calls w) EGL_OPENVG_API) \<and>
   (\<not> (HAVE_EGL cfg \<and> HAVE_OPENGL cfg) \<longrightarrow>
      \<not> fst (gfx_ctx_drm_bind_api cfg plat GFX_CTX_OPENGL_API major minor w)) \<and>
   (\<not> (HAVE_EGL cfg \<and> HAVE_OPENGLES cfg) \<longrightarrow>
      \<not> fst (gfx_ctx_drm_bind_api cfg plat GFX_CTX_OPENGL_ES_API major minor w)) \<and>
   (\<not> (HAVE_EGL cfg \<and> HAVE_VG cfg) \<longrightarrow>
      \<not> fst (gfx_ctx_drm_bind_api cfg plat GFX_CTX_OPENVG_API major minor w)) \<and>
   \<not> fst (gfx_ctx_drm_bind_api cfg plat GFX_CTX_NONE major minor w) \<and>
   \<not> fst (gfx_ctx_drm_bind_api cfg plat (GFX_CTX_OTHER_API k) major minor w)"
proof -
  have es: "(3 \<le> major) = (3 \<le> unat major)"
    by (simp add: word_le_nat_alt)
  show ?thesis
    by (simp add: gfx_ctx_drm_bind_api_def call_egl_bind_api_def emit_def Let_def
          opengl_version_gate es)
qed

text \<open>
  Both branches of each gate: OpenGL-ES 3.0 is rejected without the extension and
  bound with it, OpenGL-ES 2.0 is bound, OpenGL is rejected when it is not compiled
  in, OpenGL 3.1 is rejected and 3.0 bound without the extension, OpenVG is bound
  whatever the version. The sum is the 32-bit one: for \<open>major = 4294968\<close> it wraps to
  704 and the request is passed on.
\<close>

theorem bind_api_result_witness:
  "\<not> fst (gfx_ctx_drm_bind_api gles_build working_platform GFX_CTX_OPENGL_ES_API 3 0 boot_world) \<and>
   fst (gfx_ctx_drm_bind_api (gles_build\<lparr>EGL_KHR_create_context := True\<rparr>) working_platform
          GFX_CTX_OPENGL_ES_API 3 0 boot_world) \<and>
   fst (gfx_ctx_drm_bind_api gles_build working_platform GFX_CTX_OPENGL_ES_API 2 0 boot_world) \<and>
   \<not> fst (gfx_ctx_drm_bind_api gles_build working_platform GFX_CTX_OPENGL_API 2 1 boot_world) \<and>
   \<not> fst (gfx_ctx_drm_bind_api (gles_build\<lparr>HAVE_OPENGL := True\<rparr>) working_platform
          GFX_CTX_OPENGL_API 3 1 boot_world) \<and>
   fst (gfx_ctx_drm_bind_api (gles_build\<lparr>HAVE_OPENGL := True\<rparr>) working_platform
          GFX_CTX_OPENGL_API 3 0 boot_world) \<and>
   fst (gfx_ctx_drm_bind_api (gles_build\<lparr>HAVE_VG := True\<rparr>) working_platform
          GFX_CTX_OPENVG_API 9 9 boot_world) \<and>
   fst (gfx_ctx_drm_bind_api (gles_build\<lparr>HAVE_OPENGL := True\<rparr>) working_platform
          GFX_CTX_OPENGL_API 4294968 0 boot_world)"
  using bind_api_result [where cfg = gles_build and major = 3 and minor = 0
          and plat = working_platform and w = boot_world]
        bind_api_result [where cfg = "gles_build\<lparr>EGL_KHR_create_context := True\<rparr>"
          and major = 3 and minor = 0 and plat = working_platform and w = boot_world]
        bind_api_result [where cfg = gles_build and major = 2 and minor = 0
          and plat = working_platform and w = boot_world]
        bind_api_result [where cfg = gles_build and major = 2 and minor = 1
          and plat = working_platform and w = boot_world]
        bind_api_result [where cfg = "gles_build\<lparr>HAVE_OPENGL := True\<rparr>"
          and major = 3 and minor = 1 and plat = working_platform and w = boot_world]
        bind_api_result [where cfg = "gles_build\<lparr>HAVE_OPENGL := True\<rparr>"
          and major = 3 and minor = 0 and plat = working_platform and w = boot_world]
        bind_api_result [where cfg = "gles_build\<lparr>HAVE_VG := True\<rparr>"
          and major = 9 and minor = 9 and plat = working_platform and w = boot_world]
        bind_api_result [where cfg = "gles_build\<lparr>HAVE_OPENGL := True\<rparr>"
          and major = 4294968 and minor = 0 and plat = working_platform and w = boot_world]
  by (simp add: gles_build_def working_platform_def)

text \<open>
  Claim C4 as it was stated, with the sum read as a sum of numbers, fails where the
  32-bit sum wraps: OpenGL compiled in, no extension, \<open>major = 4294968\<close> and
  \<open>minor = 0\<close>. The sum of the numbers is 4294968000, at least 3001, yet the code
  computes 704, does not reject, and returns what \<open>egl_bind_api\<close> returns: true.
\<close>

theorem bind_api_version_sum_wraps:
  "HAVE_EGL (gles_build\<lparr>HAVE_OPENGL := True\<rparr>) \<and>
   HAVE_OPENGL (gles_build\<lparr>HAVE_OPENGL := True\<rparr>) \<and>
   \<not> EGL_KHR_create_context (gles_build\<lparr>HAVE_OPENGL := True\<rparr>) \<and>
   3001 \<le> unat (4294968 :: u32) * 1000 + unat (0 :: u32) \<and>
   fst (gfx_ctx_drm_bind_api (gles_build\<lparr>HAVE_OPENGL := True\<rparr>) working_platform
          GFX_CTX_OPENGL_API 4294968 0 boot_world)"
  by (simp add: gfx_ctx_drm_bind_api_def call_egl_bind_api_def gles_build_def
        working_platform_def Let_def)

subsection \<open>C5\<close>

text \<open>
  Claim C5. \<open>gfx_ctx_drm_set_video_mode\<close> returns false exactly when the handle is
  null. On a non-null handle it returns true, the handle stays non-null with frame
  size 480 by 320, and \<open>gfx_ctx_drm_get_video_size\<close> on it then writes 480 and 320
  whatever the outputs held. The requested width, height and fullscreen flag have no
  influence on anything the call returns or does.
\<close>

theorem set_video_mode_fixed_size:
  "(\<not> fst (gfx_ctx_drm_set_video_mode plat data width height fullscreen w)) = (data = None) \<and>
   (case gfx_ctx_drm_set_video_mode plat (Some drm) width height fullscreen w of
      (ok, data1, w1) \<Rightarrow>
        ok \<and> (\<exists>drm1. data1 = Some drm1 \<and> fb_width drm1 = 480 \<and> fb_height drm1 = 320) \<and>
        gfx_ctx_drm_get_video_size data1 out = (480, 320)) \<and>
   gfx_ctx_drm_set_video_mode plat data width height fullscreen w =
     gfx_ctx_drm_set_video_mode plat data width2 height2 fullscreen2 w"
  by (cases data)
     (simp_all add: gfx_ctx_drm_set_video_mode_def gfx_ctx_drm_get_video_size_def Let_def
        split: prod.splits)

text \<open>A request for 1920 by 1080, on a null handle and on a fresh one.\<close>

theorem set_video_mode_fixed_size_witness:
  "(\<not> fst (gfx_ctx_drm_set_video_mode working_platform None 1920 1080 True boot_world)) \<and>
   (case gfx_ctx_drm_set_video_mode working_platform (Some fresh_drm) 1920 1080 True boot_world of
      (ok, data1, w1) \<Rightarrow>
        ok \<and> (\<exists>drm1. data1 = Some drm1 \<and> fb_width drm1 = 480 \<and> fb_height drm1 = 320) \<and>
        gfx_ctx_drm_get_video_size data1 (0, 0) = (480, 320))"
  using set_video_mode_fixed_size [where plat = working_platform and data = None
          and width = 1920 and height = 1080 and fullscreen = True and w = boot_world
          and drm = fresh_drm and out = "(0, 0)"]
  by simp

subsection \<open>C6\<close>

text \<open>
  Claim C6. On a non-null handle \<open>gfx_ctx_drm_swap_interval\<close> returns without fault
  and the struct afterwards is the struct before with \<open>interval\<close> set to the
  requested \<open>n\<close>, for every \<open>n\<close>: no other field changes, and a request above 1 is
  stored as it is, the only difference being one warning logged.
\<close>

theorem swap_interval_stores_request:
  "\<exists>drm1 w1. gfx_ctx_drm_swap_interval (Some drm) n w = Inr (drm1, w1) \<and>
     interval drm1 = n \<and> drm1 = drm\<lparr>interval := n\<rparr> \<and>
     w1 = (if 1 < sint n then w\<lparr>calls := calls w @ [Call_RARCH_WARN
         ''[KMS]: Swap intervals > 1 currently not supported. Will use swap interval of 1.\<newline>'']\<rparr>
       else w)"
  by (simp add: gfx_ctx_drm_swap_interval_def emit_def)

text \<open>A request for 5 is stored as 5, with one line logged.\<close>

theorem swap_interval_stores_request_witness:
  "\<exists>drm1 w1. gfx_ctx_drm_swap_interval (Some sample_drm) 5 boot_world = Inr (drm1, w1) \<and>
     interval drm1 = 5 \<and> length (calls w1) = 1"
  using swap_interval_stores_request [of sample_drm 5 boot_world]
  by (auto simp add: boot_world_def)

subsection \<open>C7\<close>

text \<open>
  Claim C7. The four flags being four different bits of the word, the word
  \<open>gfx_ctx_drm_get_flags\<close> returns on a non-null handle always contains
  \<open>CUSTOMIZABLE_SWAPCHAIN_IMAGES\<close>; contains \<open>GL_CORE_CONTEXT\<close> exactly when
  \<open>core_hw_context_enable\<close> is set; contains \<open>SHADERS_SLANG\<close> exactly when the video
  driver identifier is \<open>glcore\<close> and both \<open>HAVE_SLANG\<close> and \<open>HAVE_SPIRV_CROSS\<close> are
  defined; contains \<open>SHADERS_GLSL\<close> exactly when the identifier is not \<open>glcore\<close>; and
  never contains both shader flags.
\<close>

theorem get_flags_contents:
  assumes "distinct (map (\<lambda>b. b mod 32)
             [GFX_CTX_FLAGS_GL_CORE_CONTEXT fl, GFX_CTX_FLAGS_CUSTOMIZABLE_SWAPCHAIN_IMAGES fl,
              GFX_CTX_FLAGS_SHADERS_GLSL fl, GFX_CTX_FLAGS_SHADERS_SLANG fl])"
  shows "\<exists>flags. gfx_ctx_drm_get_flags cfg fl plat (Some drm) = Inr flags \<and>
     has_flag flags (GFX_CTX_FLAGS_CUSTOMIZABLE_SWAPCHAIN_IMAGES fl) \<and>
     has_flag flags (GFX_CTX_FLAGS_GL_CORE_CONTEXT fl) = core_hw_context_enable drm \<and>
     has_flag flags (GFX_CTX_FLAGS_SHADERS_SLANG fl) =
       (video_driver_get_ident plat = Some ''glcore'' \<and> HAVE_SLANG cfg \<and> HAVE_SPIRV_CROSS cfg) \<and>
     has_flag flags (GFX_CTX_FLAGS_SHADERS_GLSL fl) =
       (video_driver_get_ident plat \<noteq> Some ''glcore'') \<and>
     \<not> (has_flag flags (GFX_CTX_FLAGS_SHADERS_SLANG fl) \<and>
        has_flag flags (GFX_CTX_FLAGS_SHADERS_GLSL fl))"
  using assms
  by (auto simp add: gfx_ctx_drm_get_flags_def Let_def has_flag_BIT32_SET has_flag_zero
        string_is_equal_Some)

text \<open>
  With the identifier \<open>gl\<close> and a core context requested: the swapchain flag, the
  core flag and the GLSL flag are set, the Slang flag is not.
\<close>

theorem get_flags_contents_witness:
  "\<exists>flags. gfx_ctx_drm_get_flags gles_build sample_flags working_platform
       (Some (sample_drm\<lparr>core_hw_context_enable := True\<rparr>)) = Inr flags \<and>
     has_flag flags 3 \<and> has_flag flags 1 \<and> \<not> has_flag flags 11 \<and> has_flag flags 8"
  using get_flags_contents [where fl = sample_flags and cfg = gles_build
          and plat = working_platform and drm = "sample_drm\<lparr>core_hw_context_enable := True\<rparr>"]
  by (auto simp add: sample_flags_def working_platform_def gles_build_def)

subsection \<open>C8\<close>

text \<open>
  Claim C8. On a non-null handle: when the word given to \<open>gfx_ctx_drm_set_flags\<close>
  contains \<open>GL_CORE_CONTEXT\<close>, the word \<open>gfx_ctx_drm_get_flags\<close> returns afterwards
  contains it; when it does not, the struct is unchanged; and in every case the struct
  afterwards is the struct before with \<open>core_hw_context_enable\<close> set to its old value
  or-ed with the presence of that one flag, so no other flag is read and the field is
  never cleared.
\<close>

theorem set_flags_core_only:
  "(has_flag flags (GFX_CTX_FLAGS_GL_CORE_CONTEXT fl) \<longrightarrow>
      (case gfx_ctx_drm_set_flags fl (Some drm) flags of
         Inl f \<Rightarrow> False
       | Inr data1 \<Rightarrow>
           data1 \<noteq> None \<and>
           (case gfx_ctx_drm_get_flags cfg fl plat data1 of
              Inl f \<Rightarrow> False
            | Inr flags1 \<Rightarrow> has_flag flags1 (GFX_CTX_FLAGS_GL_CORE_CONTEXT fl)))) \<and>
   (\<not> has_flag flags (GFX_CTX_FLAGS_GL_CORE_CONTEXT fl) \<longrightarrow>
      gfx_ctx_drm_set_flags fl (Some drm) flags = Inr (Some drm)) \<and>
   gfx_ctx_drm_set_flags fl (Some drm) flags =
     Inr (Some (drm\<lparr>core_hw_context_enable :=
            core_hw_context_enable drm \<or> has_flag flags (GFX_CTX_FLAGS_GL_CORE_CONTEXT fl)\<rparr>))"
  by (simp add: set_flags_Some gfx_ctx_drm_get_flags_def Let_def has_flag_BIT32_SET)

text \<open>
  With \<open>GL_CORE_CONTEXT\<close> as bit 1: the word 2 sets the field and the flag is read
  back; the word 8 leaves a set field set.
\<close>

theorem set_flags_core_only_witness:
  "(case gfx_ctx_drm_set_flags sample_flags (Some sample_drm) 2 of
      Inl f \<Rightarrow> False
    | Inr data1 \<Rightarrow>
        data1 \<noteq> None \<and>
        (case gfx_ctx_drm_get_flags gles_build sample_flags working_platform data1 of
           Inl f \<Rightarrow> False
         | Inr flags1 \<Rightarrow> has_flag flags1 1)) \<and>
   gfx_ctx_drm_set_flags sample_flags (Some (sample_drm\<lparr>core_hw_context_enable := True\<rparr>)) 8 =
     Inr (Some (sample_drm\<lparr>core_hw_context_enable := True\<rparr>))"
proof -
  have core: "GFX_CTX_FLAGS_GL_CORE_CONTEXT sample_flags = 1"
    by (simp add: sample_flags_def)
  have given: "has_flag 2 (GFX_CTX_FLAGS_GL_CORE_CONTEXT sample_flags)"
    by (simp add: core has_flag_def BIT32_GET_def)
  have other: "\<not> has_flag 8 (GFX_CTX_FLAGS_GL_CORE_CONTEXT sample_flags)"
    by (simp add: core has_flag_def BIT32_GET_def)
  note a = set_flags_core_only [where flags = 2 and fl = sample_flags and drm = sample_drm
      and cfg = gles_build and plat = working_platform, THEN conjunct1, THEN mp, OF given,
      unfolded core]
  note b = set_flags_core_only [where flags = 8 and fl = sample_flags
      and drm = "sample_drm\<lparr>core_hw_context_enable := True\<rparr>"
      and cfg = gles_build and plat = working_platform, THEN conjunct2, THEN conjunct1, THEN mp,
      OF other]
  show ?thesis
    by (rule conjI [OF a b])
qed

subsection \<open>C9\<close>

text \<open>
  Claim C9. \<open>gfx_ctx_drm_get_video_size\<close> on a null handle leaves both outputs as
  they were; on a non-null handle it writes \<open>fb_width\<close> and \<open>fb_height\<close> of the
  struct into them.
\<close>

theorem get_video_size_reports:
  "gfx_ctx_drm_get_video_size None (width, height) = (width, height) \<and>
   gfx_ctx_drm_get_video_size (Some drm) (width, height) = (fb_width drm, fb_height drm)"
  by (simp add: gfx_ctx_drm_get_video_size_def)

subsection \<open>C10\<close>

text \<open>
  Claim C10, as the code has it. Whatever \<open>gfx_ctx_drm_bind_api\<close> returns, the world
  it leaves has \<open>drm_api\<close> equal to the requested API, and \<open>gfx_ctx_drm_get_api\<close>
  returns it. The version is recorded in \<open>g_egl_major\<close> and \<open>g_egl_minor\<close> in a build
  with EGL only; without EGL they are as before. The three dispatching functions
  then branch on the requested API: \<open>gfx_ctx_drm_get_proc_address\<close> asks EGL,
  \<open>gfx_ctx_drm_swap_buffers\<close> presents and \<open>gfx_ctx_drm_bind_hw_render\<close> calls EGL
  exactly when that API is one of the three GPU APIs (and the build has EGL).
\<close>

theorem bind_api_selects_before_validation:
  "(let w1 = snd (gfx_ctx_drm_bind_api cfg plat api major minor w) in
      drm_api w1 = api \<and>
      gfx_ctx_drm_get_api data w1 = api \<and>
      (HAVE_EGL cfg \<longrightarrow> g_egl_major w1 = major \<and> g_egl_minor w1 = minor) \<and>
      (\<not> HAVE_EGL cfg \<longrightarrow> g_egl_major w1 = g_egl_major w \<and> g_egl_minor w1 = g_egl_minor w) \<and>
      gfx_ctx_drm_get_proc_address cfg plat symbol w1 =
        (if is_gpu_api api \<and> HAVE_EGL cfg
         then (egl_get_proc_address plat (calls w1) symbol,
               emit (Call_egl_get_proc_address symbol) w1)
         else (None, w1)) \<and>
      gfx_ctx_drm_swap_buffers cfg plat data w1 =
        (if is_gpu_api api
         then (if HAVE_EGL cfg then present plat data w1 else Inr w1)
         else Inr (emit (Call_printf ''unhandled gfx_ctx_drm_swap_buffers\<newline>'') w1)) \<and>
      gfx_ctx_drm_bind_hw_render cfg plat (Some drm) enable w1 =
        (if is_gpu_api api \<and> HAVE_EGL cfg
         then Inr (Some (drm\<lparr>egl := egl_bind_hw_render plat (calls w1) (egl drm) enable\<rparr>),
                   emit (Call_egl_bind_hw_render (Some (egl drm)) enable) w1)
         else Inr (Some drm, w1)))"
  by (simp add: Let_def bind_api_drm_api bind_api_version gfx_ctx_drm_get_api_def
        get_proc_address_dispatch swap_buffers_dispatch bind_hw_render_dispatch)

text \<open>
  A rejected bind: OpenGL-ES 3.2 without the extension returns false, and yet
  OpenGL-ES is the selected API afterwards, 3 and 2 are recorded, and the three
  dispatching functions take their GPU branch.
\<close>

theorem bind_api_selects_before_validation_witness:
  "\<not> fst (gfx_ctx_drm_bind_api gles_build working_platform GFX_CTX_OPENGL_ES_API 3 2 boot_world) \<and>
   (let w1 = snd (gfx_ctx_drm_bind_api gles_build working_platform GFX_CTX_OPENGL_ES_API 3 2
                    boot_world) in
      drm_api w1 = GFX_CTX_OPENGL_ES_API \<and>
      gfx_ctx_drm_get_api (Some sample_drm) w1 = GFX_CTX_OPENGL_ES_API \<and>
      g_egl_major w1 = 3 \<and> g_egl_minor w1 = 2 \<and>
      fst (gfx_ctx_drm_get_proc_address gles_build working_platform ''glClear'' w1) = Some 5 \<and>
      gfx_ctx_drm_swap_buffers gles_build working_platform (Some sample_drm) w1 =
        present working_platform (Some sample_drm) w1 \<and>
      gfx_ctx_drm_bind_hw_render gles_build working_platform (Some sample_drm) True w1 =
        Inr (Some sample_drm, emit (Call_egl_bind_hw_render (Some 0) True) w1))"
proof -
  have rejected:
    "\<not> fst (gfx_ctx_drm_bind_api gles_build working_platform GFX_CTX_OPENGL_ES_API 3 2 boot_world)"
    by (simp add: gfx_ctx_drm_bind_api_def gles_build_def Let_def)
  have egl: "HAVE_EGL gles_build" and gpu: "is_gpu_api GFX_CTX_OPENGL_ES_API"
    by (simp_all add: gles_build_def is_gpu_api_def)
  have plat: "egl_get_proc_address working_platform cs ''glClear'' = Some 5"
    "egl_bind_hw_render working_platform cs 0 True = 0"
    "egl sample_drm = 0" "sample_drm\<lparr>egl := 0\<rparr> = sample_drm" for cs
    by (simp_all add: working_platform_def sample_drm_def)
  from bind_api_selects_before_validation [where cfg = gles_build and plat = working_platform
      and api = GFX_CTX_OPENGL_ES_API and major = 3 and minor = 2 and w = boot_world
      and data = "Some sample_drm" and drm = sample_drm and symbol = "''glClear''"
      and enable = True] rejected egl gpu
  show ?thesis
    by (simp add: Let_def plat)
qed

text \<open>
  Claim C10 as it was stated fails on a build without EGL in what it says of the
  version: after a bind of OpenGL-ES 3.2 neither 3 nor 2 is recorded.
\<close>

theorem bind_api_without_egl_records_no_version:
  "g_egl_major (snd (gfx_ctx_drm_bind_api no_egl_build working_platform GFX_CTX_OPENGL_ES_API 3 2
      boot_world)) \<noteq> 3 \<and>
   g_egl_minor (snd (gfx_ctx_drm_bind_api no_egl_build working_platform GFX_CTX_OPENGL_ES_API 3 2
      boot_world)) \<noteq> 2"
  by (simp add: gfx_ctx_drm_bind_api_def no_egl_build_def boot_world_def Let_def)

end
